theory Spec2Isabelle
  imports Complex_Main
begin

section \<open>JavaScript numbers\<close>

text \<open>
  The program is JavaScript: every number is an IEEE double. The model keeps the three
  special values apart from the finite ones, because the code tests for them
  (\<^verbatim>\<open>Number.isFinite\<close>, \<^verbatim>\<open>isNaN\<close>, \<^verbatim>\<open>x || 0\<close>) and produces them
  (division by zero). A finite value is a real number and finite arithmetic is exact:
  rounding, overflow of a finite result to \<^verbatim>\<open>Infinity\<close> and the sign of zero are not
  modelled (a zero is \<^verbatim>\<open>+0\<close>). Decimal literals such as \<^verbatim>\<open>0.16\<close> are the rationals
  they denote.
\<close>

datatype jsnum = NaN | PInf | NInf | Fin real

datatype error = TypeError

fun isFinite :: "jsnum \<Rightarrow> bool" where
  "isFinite (Fin x) = True"
| "isFinite NaN = False"
| "isFinite PInf = False"
| "isFinite NInf = False"

fun isNaN :: "jsnum \<Rightarrow> bool" where
  "isNaN NaN = True"
| "isNaN PInf = False"
| "isNaN NInf = False"
| "isNaN (Fin x) = False"

text \<open>Truthiness of a number, as \<^verbatim>\<open>if (x)\<close>, \<^verbatim>\<open>x || d\<close> and \<^verbatim>\<open>x && y\<close> test it:
  \<^verbatim>\<open>0\<close> and \<^verbatim>\<open>NaN\<close> are falsy.\<close>

fun truthy :: "jsnum \<Rightarrow> bool" where
  "truthy NaN = False"
| "truthy PInf = True"
| "truthy NInf = True"
| "truthy (Fin x) = (x \<noteq> 0)"

definition js_or :: "jsnum \<Rightarrow> jsnum \<Rightarrow> jsnum" where
  "js_or a d = (if truthy a then a else d)"

fun js_neg :: "jsnum \<Rightarrow> jsnum" where
  "js_neg NaN = NaN"
| "js_neg PInf = NInf"
| "js_neg NInf = PInf"
| "js_neg (Fin x) = Fin (- x)"

fun js_add :: "jsnum \<Rightarrow> jsnum \<Rightarrow> jsnum" where
  "js_add (Fin x) (Fin y) = Fin (x + y)"
| "js_add NaN b = NaN"
| "js_add a NaN = NaN"
| "js_add PInf NInf = NaN"
| "js_add NInf PInf = NaN"
| "js_add PInf b = PInf"
| "js_add a PInf = PInf"
| "js_add NInf b = NInf"
| "js_add a NInf = NInf"

definition js_sub :: "jsnum \<Rightarrow> jsnum \<Rightarrow> jsnum" where
  "js_sub a b = js_add a (js_neg b)"

text \<open>The sign of an infinite product or quotient: the infinity \<open>PInf\<close> when \<open>pos\<close>.\<close>

definition inf_of_sign :: "bool \<Rightarrow> jsnum" where
  "inf_of_sign pos = (if pos then PInf else NInf)"

fun js_mul :: "jsnum \<Rightarrow> jsnum \<Rightarrow> jsnum" where
  "js_mul (Fin x) (Fin y) = Fin (x * y)"
| "js_mul NaN b = NaN"
| "js_mul a NaN = NaN"
| "js_mul PInf PInf = PInf"
| "js_mul PInf NInf = NInf"
| "js_mul NInf PInf = NInf"
| "js_mul NInf NInf = PInf"
| "js_mul PInf (Fin y) = (if y = 0 then NaN else inf_of_sign (0 < y))"
| "js_mul NInf (Fin y) = (if y = 0 then NaN else inf_of_sign (y < 0))"
| "js_mul (Fin x) PInf = (if x = 0 then NaN else inf_of_sign (0 < x))"
| "js_mul (Fin x) NInf = (if x = 0 then NaN else inf_of_sign (x < 0))"

fun js_div :: "jsnum \<Rightarrow> jsnum \<Rightarrow> jsnum" where
  "js_div (Fin x) (Fin y) =
     (if y \<noteq> 0 then Fin (x / y)
      else if 0 < x then PInf else if x < 0 then NInf else NaN)"
| "js_div NaN b = NaN"
| "js_div a NaN = NaN"
| "js_div PInf PInf = NaN"
| "js_div PInf NInf = NaN"
| "js_div NInf PInf = NaN"
| "js_div NInf NInf = NaN"
| "js_div PInf (Fin y) = inf_of_sign (0 \<le> y)"
| "js_div NInf (Fin y) = inf_of_sign (y < 0)"
| "js_div (Fin x) PInf = Fin 0"
| "js_div (Fin x) NInf = Fin 0"

text \<open>Comparisons: every comparison with \<^verbatim>\<open>NaN\<close> is false.\<close>

fun js_lt :: "jsnum \<Rightarrow> jsnum \<Rightarrow> bool" where
  "js_lt (Fin x) (Fin y) = (x < y)"
| "js_lt NaN b = False"
| "js_lt a NaN = False"
| "js_lt PInf b = False"
| "js_lt a NInf = False"
| "js_lt NInf b = True"
| "js_lt a PInf = True"

fun js_eq :: "jsnum \<Rightarrow> jsnum \<Rightarrow> bool" where
  "js_eq NaN b = False"
| "js_eq a NaN = False"
| "js_eq a b = (a = b)"

definition js_le :: "jsnum \<Rightarrow> jsnum \<Rightarrow> bool" where
  "js_le a b = (js_lt a b \<or> js_eq a b)"

definition js_gt :: "jsnum \<Rightarrow> jsnum \<Rightarrow> bool" where
  "js_gt a b = js_lt b a"

definition js_ge :: "jsnum \<Rightarrow> jsnum \<Rightarrow> bool" where
  "js_ge a b = js_le b a"

text \<open>\<^verbatim>\<open>Math.min\<close> and \<^verbatim>\<open>Math.max\<close> of two numbers: \<^verbatim>\<open>NaN\<close> if either is.\<close>

definition Math_min :: "jsnum \<Rightarrow> jsnum \<Rightarrow> jsnum" where
  "Math_min a b = (if isNaN a \<or> isNaN b then NaN else if js_lt b a then b else a)"

definition Math_max :: "jsnum \<Rightarrow> jsnum \<Rightarrow> jsnum" where
  "Math_max a b = (if isNaN a \<or> isNaN b then NaN else if js_lt a b then b else a)"

text \<open>\<^verbatim>\<open>Math.round\<close>: the nearest integer, a tie rounded up.\<close>

fun Math_round :: "jsnum \<Rightarrow> jsnum" where
  "Math_round (Fin x) = Fin (of_int \<lfloor>x + 1 / 2\<rfloor>)"
| "Math_round NaN = NaN"
| "Math_round PInf = PInf"
| "Math_round NInf = NInf"

section \<open>Tax conversion\<close>

text \<open>The bracket objects of the two tables: \<^verbatim>\<open>{ lower, upper, r }\<close> in
  \<^verbatim>\<open>_calculateNetIncome\<close>, and the same with \<^verbatim>\<open>Cprev\<close> in \<^verbatim>\<open>_convertNetToGross\<close>.\<close>

record tax_bracket =
  lower :: jsnum
  upper :: jsnum
  rate :: jsnum

record inv_bracket = tax_bracket +
  Cprev :: jsnum

definition BRACKETS_net :: "tax_bracket list" where
  "BRACKETS_net =
    [\<lparr>lower = Fin 0,      upper = Fin 18200,  rate = Fin 0\<rparr>,
     \<lparr>lower = Fin 18200,  upper = Fin 45000,  rate = Fin (16 / 100)\<rparr>,
     \<lparr>lower = Fin 45000,  upper = Fin 135000, rate = Fin (30 / 100)\<rparr>,
     \<lparr>lower = Fin 135000, upper = Fin 190000, rate = Fin (37 / 100)\<rparr>,
     \<lparr>lower = Fin 190000, upper = PInf,       rate = Fin (45 / 100)\<rparr>]"

definition BRACKETS_gross :: "inv_bracket list" where
  "BRACKETS_gross =
    [\<lparr>lower = Fin 0,      upper = Fin 18200,  rate = Fin 0,          Cprev = Fin 0\<rparr>,
     \<lparr>lower = Fin 18200,  upper = Fin 45000,  rate = Fin (16 / 100), Cprev = Fin 0\<rparr>,
     \<lparr>lower = Fin 45000,  upper = Fin 135000, rate = Fin (30 / 100), Cprev = Fin 4288\<rparr>,
     \<lparr>lower = Fin 135000, upper = Fin 190000, rate = Fin (37 / 100), Cprev = Fin 31288\<rparr>,
     \<lparr>lower = Fin 190000, upper = PInf,       rate = Fin (45 / 100), Cprev = Fin 51638\<rparr>]"

text \<open>\<^verbatim>\<open>_calculateNetIncome\<close>: the loop over the brackets, with the tax so far.\<close>

fun tax_loop :: "jsnum \<Rightarrow> tax_bracket list \<Rightarrow> jsnum \<Rightarrow> jsnum" where
  "tax_loop grossIncome [] tax = tax"
| "tax_loop grossIncome (b # bs) tax =
     tax_loop grossIncome bs
       (if js_gt grossIncome (lower b)
        then js_add tax (js_mul (js_sub (Math_min grossIncome (upper b)) (lower b)) (rate b))
        else tax)"

definition calculateNetIncome :: "jsnum \<Rightarrow> error + jsnum" where
  "calculateNetIncome grossIncome =
     (if \<not> isFinite grossIncome then Inl TypeError
      else if js_lt grossIncome (Fin 0) then Inr (Fin 0)
      else Inr (js_sub grossIncome (tax_loop grossIncome BRACKETS_net (Fin 0))))"

text \<open>\<^verbatim>\<open>_convertNetToGross\<close>: the candidate gross income of a bracket, the bracket
  search from index \<open>i\<close> (None when the loop ends without a return), and the function.\<close>

definition candidateGross :: "jsnum \<Rightarrow> inv_bracket \<Rightarrow> jsnum" where
  "candidateGross netIncome b =
     js_div (js_sub (js_add netIncome (Cprev b)) (js_mul (rate b) (lower b)))
            (js_sub (Fin 1) (rate b))"

function bracket_search :: "jsnum \<Rightarrow> nat \<Rightarrow> jsnum option" where
  "bracket_search netIncome i =
     (if i < length BRACKETS_gross then
        (if js_le (js_sub (Fin 1) (rate (BRACKETS_gross ! i))) (Fin 0)
         then bracket_search netIncome (i + 1)
         else if js_ge (candidateGross netIncome (BRACKETS_gross ! i)) (lower (BRACKETS_gross ! i))
               \<and> (if i = length BRACKETS_gross - 1
                  then js_ge (candidateGross netIncome (BRACKETS_gross ! i))
                             (lower (BRACKETS_gross ! i))
                  else js_lt (candidateGross netIncome (BRACKETS_gross ! i))
                             (upper (BRACKETS_gross ! i)))
         then Some (candidateGross netIncome (BRACKETS_gross ! i))
         else bracket_search netIncome (i + 1))
      else None)"
  by pat_completeness auto
termination
  by (relation "measure (\<lambda>(netIncome, i). length BRACKETS_gross - i)") auto

definition convertNetToGross :: "jsnum \<Rightarrow> error + jsnum" where
  "convertNetToGross netIncome =
     (if \<not> isFinite netIncome then Inl TypeError
      else if js_lt netIncome (Fin 0) then Inr (Fin 0)
      else if js_le netIncome (upper (BRACKETS_gross ! 0)) then Inr netIncome
      else (case bracket_search netIncome 1 of
              Some g \<Rightarrow> Inr g
            | None \<Rightarrow> Inr (candidateGross netIncome (last BRACKETS_gross))))"

text \<open>The tax that the forward calculation takes at a gross income, \<^verbatim>\<open>gross -
  _calculateNetIncome(gross)\<close>: the quantity that \<^verbatim>\<open>Cprev\<close> tabulates.\<close>

definition exact_tax :: "jsnum \<Rightarrow> error + jsnum" where
  "exact_tax grossIncome =
     (case calculateNetIncome grossIncome of
        Inl e \<Rightarrow> Inl e
      | Inr net \<Rightarrow> Inr (js_sub grossIncome net))"

section \<open>Inflation adjustment\<close>

text \<open>\<^verbatim>\<open>INFLATION_RATES\<close>: an object keyed by year. A key that is absent reads as
  \<^verbatim>\<open>undefined\<close>, here \<open>None\<close>.\<close>

definition INFLATION_RATES :: "int \<Rightarrow> jsnum option" where
  "INFLATION_RATES =
     [2020 \<mapsto> Fin (9 / 10), 2021 \<mapsto> Fin (29 / 10), 2022 \<mapsto> Fin (66 / 10),
      2023 \<mapsto> Fin (56 / 10), 2024 \<mapsto> Fin (316 / 100), 2025 \<mapsto> Fin (210 / 100)]"

text \<open>The loop of \<^verbatim>\<open>_adjustForInflation\<close> from \<open>year\<close> on; the years are integers.
  \<^verbatim>\<open>if (inflationRates[year])\<close> skips an absent, zero or \<^verbatim>\<open>NaN\<close> rate.\<close>

function inflation_loop :: "(int \<Rightarrow> jsnum option) \<Rightarrow> int \<Rightarrow> int \<Rightarrow> jsnum \<Rightarrow> jsnum" where
  "inflation_loop inflationRates year targetYear adjustedValue =
     (if year \<le> targetYear then
        inflation_loop inflationRates (year + 1) targetYear
          (case inflationRates year of
             None \<Rightarrow> adjustedValue
           | Some rt \<Rightarrow>
               if truthy rt
               then js_mul adjustedValue (js_add (Fin 1) (js_div rt (Fin 100)))
               else adjustedValue)
      else adjustedValue)"
  by pat_completeness auto
termination
  by (relation "measure (\<lambda>(inflationRates, year, targetYear, adjustedValue).
        nat (targetYear + 1 - year))") auto

definition adjustForInflation ::
  "jsnum \<Rightarrow> int \<Rightarrow> int \<Rightarrow> (int \<Rightarrow> jsnum option) \<Rightarrow> jsnum" where
  "adjustForInflation baseValue baseYear targetYear inflationRates =
     Math_round (inflation_loop inflationRates (baseYear + 1) targetYear baseValue)"

section \<open>Mortgage\<close>

text \<open>\<^verbatim>\<open>Math.pow\<close>, by the cases of the language definition. A finite power with an
  integral exponent is the integer power; otherwise a negative base gives \<^verbatim>\<open>NaN\<close> and
  a positive one the real power.\<close>

definition is_integral :: "real \<Rightarrow> bool" where
  "is_integral x = (x = of_int \<lfloor>x\<rfloor>)"

definition is_odd_integer :: "real \<Rightarrow> bool" where
  "is_odd_integer x = (is_integral x \<and> odd \<lfloor>x\<rfloor>)"

fun Math_pow :: "jsnum \<Rightarrow> jsnum \<Rightarrow> jsnum" where
  "Math_pow b NaN = NaN"
| "Math_pow b (Fin e) =
     (if e = 0 then Fin 1
      else case b of
        NaN \<Rightarrow> NaN
      | PInf \<Rightarrow> (if 0 < e then PInf else Fin 0)
      | NInf \<Rightarrow> (if 0 < e then (if is_odd_integer e then NInf else PInf) else Fin 0)
      | Fin x \<Rightarrow>
          if x = 0 then (if 0 < e then Fin 0 else PInf)
          else if is_integral e then Fin (x powi \<lfloor>e\<rfloor>)
          else if x < 0 then NaN
          else Fin (x powr e))"
| "Math_pow b PInf =
     (case b of
        NaN \<Rightarrow> NaN
      | PInf \<Rightarrow> PInf
      | NInf \<Rightarrow> PInf
      | Fin x \<Rightarrow> if 1 < \<bar>x\<bar> then PInf else if \<bar>x\<bar> = 1 then NaN else Fin 0)"
| "Math_pow b NInf =
     (case b of
        NaN \<Rightarrow> NaN
      | PInf \<Rightarrow> Fin 0
      | NInf \<Rightarrow> Fin 0
      | Fin x \<Rightarrow> if 1 < \<bar>x\<bar> then Fin 0 else if \<bar>x\<bar> = 1 then NaN else PInf)"

record mortgage =
  payment :: jsnum
  interest :: jsnum

definition calculateMortgage :: "jsnum \<Rightarrow> jsnum \<Rightarrow> jsnum \<Rightarrow> string \<Rightarrow> mortgage" where
  "calculateMortgage loanAmount annualRate termYears type =
     (if js_le loanAmount (Fin 0) then \<lparr>payment = Fin 0, interest = Fin 0\<rparr>
      else
        let numPayments = js_mul termYears (Fin 12) in
        if js_eq annualRate (Fin 0)
        then \<lparr>payment = js_div loanAmount numPayments, interest = Fin 0\<rparr>
        else
          let monthlyRate = js_div (js_div annualRate (Fin 100)) (Fin 12);
              monthlyInterest = js_mul loanAmount monthlyRate
          in
          if type = ''IO''
          then \<lparr>payment = monthlyInterest, interest = monthlyInterest\<rparr>
          else
            let factor = Math_pow (js_add (Fin 1) monthlyRate) numPayments;
                principalAndInterestPayment =
                  js_div (js_mul monthlyInterest factor) (js_sub factor (Fin 1))
            in \<lparr>payment = principalAndInterestPayment, interest = monthlyInterest\<rparr>)"

section \<open>Colour classification\<close>

text \<open>\<^verbatim>\<open>_getColor\<close>. \<open>None\<close> is \<^verbatim>\<open>null\<close> or \<^verbatim>\<open>undefined\<close>: for the leftover,
  \<^verbatim>\<open>!= null\<close> rejects both; for the percentage, \<^verbatim>\<open>=== null\<close> catches the first and
  \<^verbatim>\<open>isNaN\<close> the second, with the same result. The colours are the buckets: black
  \<^verbatim>\<open>#000000\<close> negative leftover (critical), grey \<^verbatim>\<open>#ccc\<close> no data, then dark green,
  green, yellow, orange and red by rising housing stress.\<close>

definition getColor :: "jsnum option \<Rightarrow> jsnum option \<Rightarrow> string" where
  "getColor percentage weeklyMoneyLeftover =
     (if (case weeklyMoneyLeftover of None \<Rightarrow> False | Some l \<Rightarrow> js_lt l (Fin 0))
      then ''#000000''
      else case percentage of
        None \<Rightarrow> ''#ccc''
      | Some p \<Rightarrow>
          if isNaN p \<or> js_eq p (Fin 0) then ''#ccc''
          else if js_le p (Fin 20) then ''#16a34a''
          else if js_le p (Fin 30) then ''#22c55e''
          else if js_le p (Fin 40) then ''#fbbf24''
          else if js_le p (Fin 50) then ''#f97316''
          else ''#ef4444'')"

section \<open>Affordability engine\<close>

text \<open>A row of the aggregated data, \<^verbatim>\<open>this.housingData[postcode]\<close>: the six raw
  statistics of the data file, then the fields that the recompute pass writes. A field
  that is \<^verbatim>\<open>null\<close> or was never written (\<^verbatim>\<open>undefined\<close>) is \<open>None\<close>.\<close>

record postcode_data =
  yearly_median_weekly_rent :: "jsnum option"
  yearly_first_quartile_weekly_rent :: "jsnum option"
  yearly_third_quartile_weekly_rent :: "jsnum option"
  yearly_median_sales_price_000s :: "jsnum option"
  yearly_first_quartile_sales_000s :: "jsnum option"
  yearly_third_quartile_sales_000s :: "jsnum option"
  weekly_housing_cost :: "jsnum option"
  affordability_percentage :: "jsnum option"
  is_affordable :: "bool option"
  weekly_money_leftover :: "jsnum option"
  calculated_weekly_payment :: "jsnum option"
  calculated_weekly_interest :: "jsnum option"
  yearly_first_quartile_weekly_rent_payment :: "jsnum option"
  yearly_third_quartile_weekly_rent_payment :: "jsnum option"
  yearly_first_quartile_weekly_payment :: "jsnum option"
  yearly_third_quartile_weekly_payment :: "jsnum option"

text \<open>The form of the page. Each numeric field is the number that \<^verbatim>\<open>parseFloat\<close>
  returns on \<^verbatim>\<open>document.getElementById(id).value\<close>: \<^verbatim>\<open>NaN\<close> for a text that does not
  start with a number (an empty field), an infinity for the text \<^verbatim>\<open>Infinity\<close> or a
  literal beyond the range of a double such as \<^verbatim>\<open>1e999\<close>, a finite number otherwise.\<close>

record document =
  annualIncome_value :: jsnum
  utilities_value :: jsnum
  food_value :: jsnum
  transport_value :: jsnum
  other_value :: jsnum
  strata_value :: jsnum
  council_value :: jsnum
  water_value :: jsnum
  maintenance_value :: jsnum
  depositPercent_value :: jsnum
  depositAmount_value :: jsnum
  interestRate_value :: jsnum
  loanTerm_value :: jsnum
  pricePoint_value :: string

text \<open>The fields of \<^verbatim>\<open>this\<close> that the pass reads and writes. The keys of
  \<^verbatim>\<open>housingData\<close> are the postcodes, in the order of the \<^verbatim>\<open>for ... in\<close> loop.\<close>

record app =
  housingType :: string
  depositType :: string
  mortgageType :: string
  housingData :: "(string \<times> postcode_data) list"

record user_settings =
  grossIncome :: jsnum
  netIncome :: jsnum
  weeklyNetIncome :: jsnum
  weeklyGrossIncome :: jsnum
  weeklyLivingCosts :: jsnum
  weeklyOwnerCosts :: jsnum

definition getUserSettings :: "document \<Rightarrow> error + user_settings" where
  "getUserSettings doc =
     (let householdNetIncome = js_or (annualIncome_value doc) (Fin 0) in
      case convertNetToGross householdNetIncome of
        Inl e \<Rightarrow> Inl e
      | Inr householdGrossIncome \<Rightarrow>
          let utilities = js_or (utilities_value doc) (Fin 0);
              food = js_or (food_value doc) (Fin 0);
              transport = js_or (transport_value doc) (Fin 0);
              other = js_or (other_value doc) (Fin 0);
              strata = js_or (strata_value doc) (Fin 0);
              council = js_or (council_value doc) (Fin 0);
              water = js_or (water_value doc) (Fin 0);
              maintenance = js_or (maintenance_value doc) (Fin 0)
          in Inr \<lparr>grossIncome = householdGrossIncome,
                  netIncome = householdNetIncome,
                  weeklyNetIncome = js_div householdNetIncome (Fin 52),
                  weeklyGrossIncome = js_div householdGrossIncome (Fin 52),
                  weeklyLivingCosts = js_add (js_add (js_add utilities food) transport) other,
                  weeklyOwnerCosts = js_add (js_add (js_add strata council) water) maintenance\<rparr>)"

text \<open>\<^verbatim>\<open>(data.field || 0) * 1000\<close>: a sales statistic in thousands, as dollars.\<close>

definition sales_dollars :: "jsnum option \<Rightarrow> jsnum" where
  "sales_dollars v =
     js_mul (case v of None \<Rightarrow> Fin 0 | Some x \<Rightarrow> js_or x (Fin 0)) (Fin 1000)"

text \<open>The mortgage of a sales price: the block that reads the four mortgage fields, takes
  the deposit off the price and calls \<^verbatim>\<open>_calculateMortgage\<close>. The source has it three
  times, for the selected price and for the two quartiles.\<close>

definition price_mortgage :: "document \<Rightarrow> app \<Rightarrow> jsnum \<Rightarrow> mortgage" where
  "price_mortgage doc this salesPrice =
     (let depositPercent = js_or (depositPercent_value doc) (Fin 20);
          depositAmount = js_or (depositAmount_value doc) (Fin 0);
          interestRate = js_or (interestRate_value doc) (Fin (65 / 10));
          loanTermYears = js_or (loanTerm_value doc) (Fin 30);
          actualDeposit =
            (if depositType this = ''percent''
             then js_mul salesPrice (js_div depositPercent (Fin 100))
             else depositAmount);
          loanAmount = Math_max (Fin 0) (js_sub salesPrice actualDeposit)
      in calculateMortgage loanAmount interestRate loanTermYears (mortgageType this))"

text \<open>The branch of the loop body that sets \<^verbatim>\<open>weeklyHousingCost\<close> and
  \<^verbatim>\<open>affordabilityPercentage\<close>; the buy branch also writes two fields of the row.\<close>

definition housing_cost ::
  "document \<Rightarrow> app \<Rightarrow> user_settings \<Rightarrow> jsnum \<Rightarrow> jsnum option \<Rightarrow> postcode_data
   \<Rightarrow> jsnum \<times> jsnum \<times> postcode_data" where
  "housing_cost doc this userSettings salesPrice rent data =
     (if housingType this = ''rent''
         \<and> (case rent of None \<Rightarrow> False | Some r \<Rightarrow> truthy r \<and> js_gt r (Fin 0))
      then
        (case rent of
           None \<Rightarrow> (Fin 0, Fin 0, data)
         | Some weeklyHousingCost \<Rightarrow>
             (weeklyHousingCost,
              js_mul (js_div weeklyHousingCost (weeklyGrossIncome userSettings)) (Fin 100),
              data))
      else if housingType this = ''buy'' \<and> truthy salesPrice \<and> js_gt salesPrice (Fin 0)
      then
        let mortgage = price_mortgage doc this salesPrice;
            weeklyMortgagePayment = js_div (js_mul (payment mortgage) (Fin 12)) (Fin 52);
            weeklyHousingCost = js_add weeklyMortgagePayment (weeklyOwnerCosts userSettings)
        in (weeklyHousingCost,
            js_mul (js_div weeklyHousingCost (weeklyGrossIncome userSettings)) (Fin 100),
            data\<lparr>calculated_weekly_payment := Some weeklyMortgagePayment,
                 calculated_weekly_interest :=
                   Some (js_div (js_mul (interest mortgage) (Fin 12)) (Fin 52))\<rparr>)
      else (Fin 0, Fin 0, data))"

definition quartile_payment ::
  "document \<Rightarrow> app \<Rightarrow> user_settings \<Rightarrow> jsnum \<Rightarrow> jsnum option" where
  "quartile_payment doc this userSettings qSales =
     (if js_gt qSales (Fin 0)
      then Some (js_add (js_div (js_mul (payment (price_mortgage doc this qSales)) (Fin 12))
                                (Fin 52))
                        (weeklyOwnerCosts userSettings))
      else None)"

definition calculateQuartilePayments ::
  "document \<Rightarrow> app \<Rightarrow> postcode_data \<Rightarrow> user_settings \<Rightarrow> postcode_data" where
  "calculateQuartilePayments doc this data userSettings =
     (let q1Sales = sales_dollars (yearly_first_quartile_sales_000s data);
          q3Sales = sales_dollars (yearly_third_quartile_sales_000s data)
      in data\<lparr>yearly_first_quartile_weekly_rent_payment :=
                  yearly_first_quartile_weekly_rent data,
                yearly_third_quartile_weekly_rent_payment :=
                  yearly_third_quartile_weekly_rent data,
                yearly_first_quartile_weekly_payment :=
                  quartile_payment doc this userSettings q1Sales,
                yearly_third_quartile_weekly_payment :=
                  quartile_payment doc this userSettings q3Sales\<rparr>)"

text \<open>The body of the loop of \<^verbatim>\<open>_updateAllAffordability\<close>, on one row.\<close>

definition update_postcode ::
  "document \<Rightarrow> app \<Rightarrow> user_settings \<Rightarrow> postcode_data \<Rightarrow> postcode_data" where
  "update_postcode doc this userSettings data =
     (let pricePoint = pricePoint_value doc;
          (salesPrice, rent) =
            (if pricePoint = ''q1''
             then (sales_dollars (yearly_first_quartile_sales_000s data),
                   yearly_first_quartile_weekly_rent data)
             else if pricePoint = ''q3''
             then (sales_dollars (yearly_third_quartile_sales_000s data),
                   yearly_third_quartile_weekly_rent data)
             else (sales_dollars (yearly_median_sales_price_000s data),
                   yearly_median_weekly_rent data));
          (weeklyHousingCost, affordabilityPercentage, data1) =
            housing_cost doc this userSettings salesPrice rent data;
          weeklyAfterExpenses =
            js_sub (weeklyNetIncome userSettings) (weeklyLivingCosts userSettings);
          data2 = data1\<lparr>weekly_housing_cost := Some weeklyHousingCost,
                        affordability_percentage := Some affordabilityPercentage,
                        is_affordable := Some (js_le affordabilityPercentage (Fin 30)),
                        weekly_money_leftover :=
                          (if js_gt weeklyHousingCost (Fin 0)
                           then Some (js_sub weeklyAfterExpenses weeklyHousingCost)
                           else None)\<rparr>
      in calculateQuartilePayments doc this data2 userSettings)"

definition updateAllAffordability :: "document \<Rightarrow> app \<Rightarrow> error + app" where
  "updateAllAffordability doc this =
     (case getUserSettings doc of
        Inl e \<Rightarrow> Inl e
      | Inr userSettings \<Rightarrow>
          Inr (this\<lparr>housingData :=
                 map (\<lambda>(postcode, data). (postcode, update_postcode doc this userSettings data))
                     (housingData this)\<rparr>))"


section \<open>The classifier of the specification\<close>

text \<open>The buckets that the specification names, the colour that stands for each, and
  its classifier \<open>classify(percentage, leftover)\<close>, written from its three rules: a
  negative leftover is critical; else a percentage that is null, \<^verbatim>\<open>NaN\<close> or 0 is no
  data; else the thresholds 20, 30, 40 and 50.\<close>

datatype bucket = Critical | NoData | VeryAffordable | Affordable | Moderate | High | Severe

fun bucket_colour :: "bucket \<Rightarrow> string" where
  "bucket_colour Critical = ''#000000''"
| "bucket_colour NoData = ''#ccc''"
| "bucket_colour VeryAffordable = ''#16a34a''"
| "bucket_colour Affordable = ''#22c55e''"
| "bucket_colour Moderate = ''#fbbf24''"
| "bucket_colour High = ''#f97316''"
| "bucket_colour Severe = ''#ef4444''"

fun is_negative :: "jsnum option \<Rightarrow> bool" where
  "is_negative None = False"
| "is_negative (Some NaN) = False"
| "is_negative (Some PInf) = False"
| "is_negative (Some NInf) = True"
| "is_negative (Some (Fin x)) = (x < 0)"

fun percentage_bucket :: "jsnum option \<Rightarrow> bucket" where
  "percentage_bucket None = NoData"
| "percentage_bucket (Some NaN) = NoData"
| "percentage_bucket (Some PInf) = Severe"
| "percentage_bucket (Some NInf) = VeryAffordable"
| "percentage_bucket (Some (Fin x)) =
     (if x = 0 then NoData
      else if x \<le> 20 then VeryAffordable
      else if x \<le> 30 then Affordable
      else if x \<le> 40 then Moderate
      else if x \<le> 50 then High
      else Severe)"

definition classify :: "jsnum option \<Rightarrow> jsnum option \<Rightarrow> bucket" where
  "classify percentage leftover =
     (if is_negative leftover then Critical else percentage_bucket percentage)"

section \<open>Rows and form states used in the examples\<close>

text \<open>Two rows have the same raw statistics when the six fields of the data file agree;
  the fields that the pass writes may differ.\<close>

definition same_raw :: "postcode_data \<Rightarrow> postcode_data \<Rightarrow> bool" where
  "same_raw d1 d2 =
     (yearly_median_weekly_rent d1 = yearly_median_weekly_rent d2
      \<and> yearly_first_quartile_weekly_rent d1 = yearly_first_quartile_weekly_rent d2
      \<and> yearly_third_quartile_weekly_rent d1 = yearly_third_quartile_weekly_rent d2
      \<and> yearly_median_sales_price_000s d1 = yearly_median_sales_price_000s d2
      \<and> yearly_first_quartile_sales_000s d1 = yearly_first_quartile_sales_000s d2
      \<and> yearly_third_quartile_sales_000s d1 = yearly_third_quartile_sales_000s d2)"

text \<open>The form with the income field empty (\<^verbatim>\<open>parseFloat('')\<close> is \<^verbatim>\<open>NaN\<close>), the
  other fields at the base values of \<^verbatim>\<open>DEFAULT_VALUES\<close>.\<close>

definition blank_income_document :: document where
  "blank_income_document =
     \<lparr>annualIncome_value = NaN, utilities_value = Fin 46, food_value = Fin 92,
      transport_value = Fin 69, other_value = NaN, strata_value = Fin 92,
      council_value = Fin 46, water_value = Fin 23, maintenance_value = Fin 69,
      depositPercent_value = Fin 20, depositAmount_value = Fin 100000,
      interestRate_value = Fin (65 / 10), loanTerm_value = Fin 30,
      pricePoint_value = ''median''\<rparr>"

text \<open>A row as the data file gives it, before any pass, with no quartile sales.\<close>

definition loaded_row :: postcode_data where
  "loaded_row =
     \<lparr>yearly_median_weekly_rent = Some (Fin 450),
      yearly_first_quartile_weekly_rent = Some (Fin 380),
      yearly_third_quartile_weekly_rent = Some (Fin 550),
      yearly_median_sales_price_000s = Some (Fin 800),
      yearly_first_quartile_sales_000s = None,
      yearly_third_quartile_sales_000s = None,
      weekly_housing_cost = None, affordability_percentage = None, is_affordable = None,
      weekly_money_leftover = None, calculated_weekly_payment = None,
      calculated_weekly_interest = None, yearly_first_quartile_weekly_rent_payment = None,
      yearly_third_quartile_weekly_rent_payment = None,
      yearly_first_quartile_weekly_payment = None,
      yearly_third_quartile_weekly_payment = None\<rparr>"

definition renting_app :: app where
  "renting_app =
     \<lparr>housingType = ''rent'', depositType = ''percent'', mortgageType = ''PI'',
      housingData = [(''2000'', loaded_row)]\<rparr>"

section \<open>Properties of the tax conversion\<close>

declare bracket_search.simps [simp del]

declare inflation_loop.simps [simp del]

declare inf_of_sign_def [simp]

lemmas net_defs = calculateNetIncome_def BRACKETS_net_def js_gt_def js_sub_def Math_min_def

lemmas gross_defs = convertNetToGross_def BRACKETS_gross_def candidateGross_def js_le_def
  js_ge_def js_sub_def

text \<open>The forward calculation, bracket by bracket.\<close>

lemma net_bracket0: "0 \<le> x \<Longrightarrow> x \<le> 18200 \<Longrightarrow> calculateNetIncome (Fin x) = Inr (Fin x)"
  by (simp add: net_defs)

lemma net_lower1: "18200 \<le> x \<Longrightarrow> x < 45000 \<Longrightarrow>
   calculateNetIncome (Fin x) = Inr (Fin (x - (x - 18200) * (16 / 100)))"
  by (simp add: net_defs)

lemma net_lower2: "45000 \<le> x \<Longrightarrow> x < 135000 \<Longrightarrow>
   calculateNetIncome (Fin x) = Inr (Fin (x - (4288 + (x - 45000) * (30 / 100))))"
  by (simp add: net_defs)

lemma net_lower3: "135000 \<le> x \<Longrightarrow> x < 190000 \<Longrightarrow>
   calculateNetIncome (Fin x) = Inr (Fin (x - (31288 + (x - 135000) * (37 / 100))))"
  by (simp add: net_defs)

lemma net_lower4: "190000 \<le> x \<Longrightarrow>
   calculateNetIncome (Fin x) = Inr (Fin (x - (51638 + (x - 190000) * (45 / 100))))"
  by (simp add: net_defs)

text \<open>The bracket search, by the range of the net income: the images of the bracket
  bounds under the forward calculation are 18200, 40712, 103712 and 138362.\<close>

lemma search_bracket1: "18200 < n \<Longrightarrow> n < 40712 \<Longrightarrow>
   bracket_search (Fin n) 1 = Some (Fin ((n - 2912) / (84 / 100)))"
  by (simp add: bracket_search.simps gross_defs field_simps)

lemma search_bracket2: "40712 \<le> n \<Longrightarrow> n < 103712 \<Longrightarrow>
   bracket_search (Fin n) 1 = Some (Fin ((n - 9212) / (70 / 100)))"
  by (simp add: bracket_search.simps gross_defs field_simps)

lemma search_bracket3: "103712 \<le> n \<Longrightarrow> n < 138362 \<Longrightarrow>
   bracket_search (Fin n) 1 = Some (Fin ((n - 18662) / (63 / 100)))"
  by (simp add: bracket_search.simps gross_defs field_simps)

lemma search_bracket4: "138362 \<le> n \<Longrightarrow>
   bracket_search (Fin n) 1 = Some (Fin ((n - 33862) / (55 / 100)))"
  by (simp add: bracket_search.simps gross_defs field_simps)

lemma gross_bracket0: "0 \<le> n \<Longrightarrow> n \<le> 18200 \<Longrightarrow> convertNetToGross (Fin n) = Inr (Fin n)"
  by (simp add: gross_defs)

lemma gross_of_search: "18200 < n \<Longrightarrow> bracket_search (Fin n) 1 = Some g \<Longrightarrow>
   convertNetToGross (Fin n) = Inr g"
  by (simp add: convertNetToGross_def BRACKETS_gross_def js_le_def)

lemma conversions_raise_iff:
  "(calculateNetIncome x = Inl TypeError) = (\<not> isFinite x)"
  "(convertNetToGross x = Inl TypeError) = (\<not> isFinite x)"
  by (simp_all add: calculateNetIncome_def convertNetToGross_def split: option.splits)

text \<open>
  Claim C7. The two bracket tables are consistent: for every bracket of the table of
  \<^verbatim>\<open>_convertNetToGross\<close>, the tabulated \<^verbatim>\<open>Cprev\<close> is the tax that
  \<^verbatim>\<open>_calculateNetIncome\<close> takes at a gross income equal to the bracket's lower bound
  (the lower bound minus its net income), and the two tables have the same bounds and
  rates, those of the 0%, 16%, 30%, 37% and 45% brackets.
\<close>

theorem bracket_tables_consistent:
  "map (\<lambda>b. exact_tax (lower b)) BRACKETS_gross = map (\<lambda>b. Inr (Cprev b)) BRACKETS_gross
   \<and> map (\<lambda>b. (lower b, upper b, rate b)) BRACKETS_gross
     = map (\<lambda>b. (lower b, upper b, rate b)) BRACKETS_net
   \<and> map (\<lambda>b. (lower b, upper b, rate b)) BRACKETS_net
     = [(Fin 0, Fin 18200, Fin 0), (Fin 18200, Fin 45000, Fin (16 / 100)),
        (Fin 45000, Fin 135000, Fin (30 / 100)), (Fin 135000, Fin 190000, Fin (37 / 100)),
        (Fin 190000, PInf, Fin (45 / 100))]"
  by (simp add: exact_tax_def net_defs BRACKETS_gross_def)




lemma round_trip_found:
  assumes "calculateNetIncome (Fin g) = Inr (Fin n)" and "18200 < n"
    and "bracket_search (Fin n) 1 = Some (Fin r)" and "r = g"
  shows "\<exists>n r. calculateNetIncome (Fin g) = Inr (Fin n) \<and> convertNetToGross (Fin n) = Inr (Fin r)
            \<and> r = g \<and> \<bar>r - g\<bar> \<le> \<bar>g\<bar> / 1000000"
proof -
  have "convertNetToGross (Fin n) = Inr (Fin r)" using assms(2,3) by (rule gross_of_search)
  moreover have "\<bar>r - g\<bar> \<le> \<bar>g\<bar> / 1000000" by (simp add: assms(4))
  ultimately show ?thesis using assms(1,4) by blast
qed

text \<open>
  Claim C1. Round trip: for every finite gross income \<open>g \<ge> 0\<close>, the net income of
  \<open>g\<close> is a finite number whose gross income is \<open>g\<close> again. In the exact arithmetic
  of the model the two are equal, so they are within the relative tolerance of one
  millionth; the rounding of doubles is outside the model.
\<close>

theorem net_gross_round_trip:
  assumes "0 \<le> g"
  shows "\<exists>n r. calculateNetIncome (Fin g) = Inr (Fin n) \<and> convertNetToGross (Fin n) = Inr (Fin r)
            \<and> r = g \<and> \<bar>r - g\<bar> \<le> \<bar>g\<bar> / 1000000"
proof -
  consider "g \<le> 18200" | "18200 < g" "g < 45000" | "45000 \<le> g" "g < 135000"
    | "135000 \<le> g" "g < 190000" | "190000 \<le> g"
    by linarith
  then show ?thesis
  proof cases
    case 1
    with assms show ?thesis by (simp add: net_bracket0 gross_bracket0)
  next
    case 2
    let ?n = "g - (g - 18200) * (16 / 100)"
    from 2 have n: "18200 < ?n" "?n < 40712" by (simp_all add: field_simps)
    from 2 have "calculateNetIncome (Fin g) = Inr (Fin ?n)" by (simp add: net_lower1)
    moreover have "(?n - 2912) / (84 / 100) = g" by (simp add: field_simps)
    ultimately show ?thesis using n(1) search_bracket1 [OF n] by (intro round_trip_found)
  next
    case 3
    let ?n = "g - (4288 + (g - 45000) * (30 / 100))"
    from 3 have n: "40712 \<le> ?n" "?n < 103712" by (simp_all add: field_simps)
    then have "18200 < ?n" by linarith
    moreover from 3 have "calculateNetIncome (Fin g) = Inr (Fin ?n)" by (simp add: net_lower2)
    moreover have "(?n - 9212) / (70 / 100) = g" by (simp add: field_simps)
    ultimately show ?thesis using search_bracket2 [OF n] by (intro round_trip_found)
  next
    case 4
    let ?n = "g - (31288 + (g - 135000) * (37 / 100))"
    from 4 have n: "103712 \<le> ?n" "?n < 138362" by (simp_all add: field_simps)
    then have "18200 < ?n" by linarith
    moreover from 4 have "calculateNetIncome (Fin g) = Inr (Fin ?n)" by (simp add: net_lower3)
    moreover have "(?n - 18662) / (63 / 100) = g" by (simp add: field_simps)
    ultimately show ?thesis using search_bracket3 [OF n] by (intro round_trip_found)
  next
    case 5
    let ?n = "g - (51638 + (g - 190000) * (45 / 100))"
    from 5 have n: "138362 \<le> ?n" by (simp_all add: field_simps)
    then have "18200 < ?n" by linarith
    moreover from 5 have "calculateNetIncome (Fin g) = Inr (Fin ?n)" by (simp add: net_lower4)
    moreover have "(?n - 33862) / (55 / 100) = g" by (simp add: field_simps)
    ultimately show ?thesis using search_bracket4 [OF n] by (intro round_trip_found)
  qed
qed

text \<open>A gross income of 100000 has the net income 79212, which converts back.\<close>

theorem net_gross_round_trip_witness:
  "(0::real) \<le> 100000 \<and> calculateNetIncome (Fin 100000) = Inr (Fin 79212)
     \<and> convertNetToGross (Fin 79212) = Inr (Fin 100000)"
  using net_gross_round_trip [of 100000] by (auto simp: net_lower2)

section \<open>Properties of the inflation adjustment\<close>

lemma inflation_loop_done: "targetYear < year \<Longrightarrow> inflation_loop s year targetYear v = v"
  by (subst inflation_loop.simps) simp

text \<open>
  Claim C9, as the code has it. If the target year is not after the base year, no rate
  is applied and \<^verbatim>\<open>_adjustForInflation\<close> returns \<^verbatim>\<open>Math.round\<close> of the base value:
  the base value rounded to the nearest integer, which is the base value itself when
  that is an integer.
\<close>

theorem adjust_target_not_after_base:
  assumes "targetYear \<le> baseYear"
  shows "adjustForInflation b baseYear targetYear s = Math_round b
         \<and> adjustForInflation (Fin (of_int k)) baseYear targetYear s = Fin (of_int k)"
  using assms by (simp add: adjustForInflation_def inflation_loop_done)

text \<open>The income statistic 61984 of 2022, asked for 2019, is returned as it is.\<close>

theorem adjust_target_not_after_base_witness:
  "(2019::int) \<le> 2022 \<and> adjustForInflation (Fin 61984) 2022 2019 INFLATION_RATES = Fin 61984"
  using adjust_target_not_after_base [of 2019 2022 "Fin 61984" INFLATION_RATES 61984] by simp

text \<open>A base value of 46.5 with the target year before the base year comes back as 47:
  the base value is not returned unchanged.\<close>

theorem adjust_rounds_counterexample:
  "(2019::int) \<le> 2020
   \<and> adjustForInflation (Fin (93 / 2)) 2020 2019 INFLATION_RATES = Fin 47
   \<and> adjustForInflation (Fin (93 / 2)) 2020 2019 INFLATION_RATES \<noteq> Fin (93 / 2)"
  by (simp add: adjustForInflation_def inflation_loop_done)

section \<open>Properties of the mortgage calculation\<close>

lemma js_gt_not_le: "js_gt p (Fin 0) \<Longrightarrow> \<not> js_le p (Fin 0)"
  by (cases p) (auto simp: js_gt_def js_le_def)



text \<open>
  Claim C6. Edge cases of \<^verbatim>\<open>_calculateMortgage\<close>: for every rate, term and repayment
  type a principal \<open>\<le> 0\<close> gives payment 0 and interest 0; a principal \<open>> 0\<close> at the
  annual rate 0 gives the straight-line payment \<^verbatim>\<open>principal / (termYears * 12)\<close> and
  interest 0, which for finite numbers and a term other than 0 is the real quotient;
  and a principal of 100000 at rate 0 over 30 years pays 100000 / 360.
\<close>

theorem mortgage_edge_cases:
  "(js_le p (Fin 0) \<longrightarrow> calculateMortgage p r t ty = \<lparr>payment = Fin 0, interest = Fin 0\<rparr>)
   \<and> (js_gt p (Fin 0) \<longrightarrow>
        calculateMortgage p (Fin 0) t ty
          = \<lparr>payment = js_div p (js_mul t (Fin 12)), interest = Fin 0\<rparr>)
   \<and> (0 < x \<and> y \<noteq> 0 \<longrightarrow>
        calculateMortgage (Fin x) (Fin 0) (Fin y) ty
          = \<lparr>payment = Fin (x / (y * 12)), interest = Fin 0\<rparr>)
   \<and> payment (calculateMortgage (Fin 100000) (Fin 0) (Fin 30) ''PI'') = Fin (100000 / 360)"
  by (simp add: calculateMortgage_def js_gt_not_le) (simp add: js_le_def)

text \<open>A principal of -5 pays nothing; 240000 at rate 0 over 20 years pays 1000 a month;
  100000 at rate 0 over 30 years pays 100000 / 360.\<close>

theorem mortgage_edge_cases_witness:
  "js_le (Fin (- 5)) (Fin 0)
   \<and> calculateMortgage (Fin (- 5)) (Fin 6) (Fin 30) ''PI'' = \<lparr>payment = Fin 0, interest = Fin 0\<rparr>
   \<and> js_gt (Fin 240000) (Fin 0)
   \<and> calculateMortgage (Fin 240000) (Fin 0) (Fin 20) ''IO''
        = \<lparr>payment = Fin 1000, interest = Fin 0\<rparr>
   \<and> (0::real) < 100000 \<and> (30::real) \<noteq> 0
   \<and> calculateMortgage (Fin 100000) (Fin 0) (Fin 30) ''PI''
        = \<lparr>payment = Fin (100000 / 360), interest = Fin 0\<rparr>"
  using mortgage_edge_cases [where p = "Fin (- 5)" and r = "Fin 6" and t = "Fin 30"
      and ty = "''PI''" and x = 100000 and y = 30]
    mortgage_edge_cases [where p = "Fin 240000" and t = "Fin 20" and ty = "''IO''"]
  by (simp add: js_le_def js_gt_def)




section \<open>Properties of the colour classification\<close>

lemma is_negative_iff: "is_negative l = (case l of None \<Rightarrow> False | Some v \<Rightarrow> js_lt v (Fin 0))"
  by (cases l rule: is_negative.cases) simp_all

text \<open>
  Claim C4. \<^verbatim>\<open>_getColor\<close> returns, for every percentage and leftover, the colour of the
  bucket that the specification's classifier gives: critical for a leftover that is not
  null and negative, whatever the percentage; else no data for a percentage that is null,
  \<^verbatim>\<open>NaN\<close> or 0; else very affordable up to 20, affordable up to 30, moderate up to 40,
  high up to 50 and severe above. \<open>classify(25, -10)\<close> is critical and
  \<open>classify(0, null)\<close> is no data. The seven colours are distinct.
\<close>

theorem getColor_classify:
  "getColor percentage leftover = bucket_colour (classify percentage leftover)
   \<and> classify (Some (Fin 25)) (Some (Fin (- 10))) = Critical
   \<and> classify (Some (Fin 0)) None = NoData
   \<and> distinct (map bucket_colour
        [Critical, NoData, VeryAffordable, Affordable, Moderate, High, Severe])"
proof -
  have "getColor percentage leftover = bucket_colour (classify percentage leftover)"
    by (cases percentage rule: percentage_bucket.cases)
       (simp_all add: getColor_def classify_def is_negative_iff js_le_def)
  then show ?thesis by (simp add: classify_def)
qed

section \<open>Properties of the recompute pass\<close>

lemmas settings_defs = Let_def getUserSettings_def js_or_def convertNetToGross_def
  BRACKETS_gross_def js_le_def



lemma zero_income_settings:
  assumes "annualIncome_value doc = NaN \<or> (\<exists>x\<le>0. annualIncome_value doc = Fin x)"
  shows "\<exists>us. getUserSettings doc = Inr us \<and> weeklyGrossIncome us = Fin 0"
  using assms by (auto simp: settings_defs)






text \<open>The fields that every pass overwrites do not depend on what the row held before.\<close>

lemma housing_cost_prior:
  "fst (housing_cost doc this us sp rent d1) = fst (housing_cost doc this us sp rent d2)"
  "fst (snd (housing_cost doc this us sp rent d1)) = fst (snd (housing_cost doc this us sp rent d2))"
  by (simp_all add: housing_cost_def Let_def split: option.splits)

lemma housing_cost_raw:
  "yearly_first_quartile_weekly_rent (snd (snd (housing_cost doc this us sp rent d)))
     = yearly_first_quartile_weekly_rent d"
  "yearly_third_quartile_weekly_rent (snd (snd (housing_cost doc this us sp rent d)))
     = yearly_third_quartile_weekly_rent d"
  "yearly_first_quartile_sales_000s (snd (snd (housing_cost doc this us sp rent d)))
     = yearly_first_quartile_sales_000s d"
  "yearly_third_quartile_sales_000s (snd (snd (housing_cost doc this us sp rent d)))
     = yearly_third_quartile_sales_000s d"
  by (simp_all add: housing_cost_def Let_def split: option.splits)

lemma overwritten_fields_ignore_prior:
  assumes "same_raw d1 d2"
  shows "weekly_housing_cost (update_postcode doc this us d1)
           = weekly_housing_cost (update_postcode doc this us d2)"
    and "affordability_percentage (update_postcode doc this us d1)
           = affordability_percentage (update_postcode doc this us d2)"
    and "is_affordable (update_postcode doc this us d1)
           = is_affordable (update_postcode doc this us d2)"
    and "weekly_money_leftover (update_postcode doc this us d1)
           = weekly_money_leftover (update_postcode doc this us d2)"
    and "yearly_first_quartile_weekly_rent_payment (update_postcode doc this us d1)
           = yearly_first_quartile_weekly_rent_payment (update_postcode doc this us d2)"
    and "yearly_third_quartile_weekly_rent_payment (update_postcode doc this us d1)
           = yearly_third_quartile_weekly_rent_payment (update_postcode doc this us d2)"
    and "yearly_first_quartile_weekly_payment (update_postcode doc this us d1)
           = yearly_first_quartile_weekly_payment (update_postcode doc this us d2)"
    and "yearly_third_quartile_weekly_payment (update_postcode doc this us d1)
           = yearly_third_quartile_weekly_payment (update_postcode doc this us d2)"
  using assms housing_cost_prior [of doc this us _ _ d1 d2]
  by (simp_all add: same_raw_def update_postcode_def calculateQuartilePayments_def Let_def
      split_beta housing_cost_raw)

text \<open>
  Claim C3, where the code departs from it. After a pass in the rent mode the fields
  \<^verbatim>\<open>calculated_weekly_payment\<close> and \<^verbatim>\<open>calculated_weekly_interest\<close> of a row are what
  they were before the pass: only the buy branch assigns them, so a value of an earlier
  pass survives, and two rows with the same raw statistics and different earlier values
  come out different.
\<close>

theorem stale_mortgage_fields:
  "calculated_weekly_payment (update_postcode doc (this\<lparr>housingType := ''rent''\<rparr>) us d)
     = calculated_weekly_payment d
   \<and> calculated_weekly_interest (update_postcode doc (this\<lparr>housingType := ''rent''\<rparr>) us d)
     = calculated_weekly_interest d
   \<and> same_raw loaded_row (loaded_row\<lparr>calculated_weekly_payment := Some (Fin 500)\<rparr>)
   \<and> calculated_weekly_payment (update_postcode blank_income_document renting_app us loaded_row)
       = None
   \<and> calculated_weekly_payment (update_postcode blank_income_document renting_app us
         (loaded_row\<lparr>calculated_weekly_payment := Some (Fin 500)\<rparr>))
       = Some (Fin 500)"
  by (auto simp: update_postcode_def housing_cost_def calculateQuartilePayments_def Let_def
      same_raw_def renting_app_def loaded_row_def split: prod.splits option.splits)

text \<open>
  Claim C8, where the code departs from it. The two conversions raise exactly on an
  argument that is not finite. The income that \<^verbatim>\<open>_getUserSettings\<close> passes on is
  \<^verbatim>\<open>parseFloat(value) || 0\<close>, which replaces \<^verbatim>\<open>NaN\<close> and keeps \<^verbatim>\<open>Infinity\<close>: with an
  income field that parses to \<^verbatim>\<open>Infinity\<close> the conversion raises and the whole pass
  ends with the error, whatever the other fields and the rows are.
\<close>

theorem infinite_income_aborts_pass:
  "(calculateNetIncome x = Inl TypeError) = (\<not> isFinite x)
   \<and> (convertNetToGross x = Inl TypeError) = (\<not> isFinite x)
   \<and> js_or NaN (Fin 0) = Fin 0
   \<and> js_or PInf (Fin 0) = PInf
   \<and> updateAllAffordability (doc\<lparr>annualIncome_value := PInf\<rparr>) this = Inl TypeError"
proof -
  have raised: "convertNetToGross PInf = Inl TypeError" by (simp add: conversions_raise_iff)
  have "updateAllAffordability (doc\<lparr>annualIncome_value := PInf\<rparr>) this = Inl TypeError"
    by (simp add: updateAllAffordability_def getUserSettings_def js_or_def raised)
  then show ?thesis by (simp add: conversions_raise_iff js_or_def)
qed

text \<open>With an income field that parses to a finite number or to \<^verbatim>\<open>NaN\<close> the pass
  completes.\<close>

lemma pass_completes:
  assumes "isFinite (annualIncome_value doc) \<or> isNaN (annualIncome_value doc)"
  shows "\<exists>this'. updateAllAffordability doc this = Inr this'"
proof -
  from assms have "isFinite (js_or (annualIncome_value doc) (Fin 0))"
    by (cases "annualIncome_value doc") (simp_all add: js_or_def)
  then have "convertNetToGross (js_or (annualIncome_value doc) (Fin 0)) \<noteq> Inl TypeError"
    by (simp add: conversions_raise_iff)
  then obtain g where "convertNetToGross (js_or (annualIncome_value doc) (Fin 0)) = Inr g"
    by (cases "convertNetToGross (js_or (annualIncome_value doc) (Fin 0))")
       (auto intro: error.exhaust)
  then show ?thesis by (simp add: updateAllAffordability_def getUserSettings_def Let_def)
qed

end
